theory Spec2Isabelle
  imports Complex_Main
begin

section \<open>Complete numbers: the value types of \<^verbatim>\<open>complete_numbers.py\<close>\<close>

text \<open>
  The module defines two classes. \<^verbatim>\<open>CompleteNumber\<close> stores four floats
  (\<^verbatim>\<open>_real\<close>, \<^verbatim>\<open>_imag\<close>, \<^verbatim>\<open>_u_real\<close>, \<^verbatim>\<open>_u_imag\<close>);
  \<^verbatim>\<open>CompleteComponent\<close> stores one float \<^verbatim>\<open>_value\<close> and a tag
  \<^verbatim>\<open>_type\<close>, the string \<^verbatim>\<open>'real'\<close> or \<^verbatim>\<open>'imag'\<close>.

  Python floats are read as real numbers. The operators below compare with zero, move
  fields, multiply and divide. The theorems name the product or quotient the code
  evaluates and rest on no law of arithmetic relating it to its operands: a float
  product or quotient can round, overflow or underflow, and nothing here says how far it
  is from the exact one. Which branch runs and where a field goes are as in the code.
  A numeric operand (\<^verbatim>\<open>int\<close> or \<^verbatim>\<open>float\<close>) is its real value. Field names
  cannot start with an underscore here, so \<^verbatim>\<open>_real\<close> is \<open>cn_real\<close>,
  \<^verbatim>\<open>_u_real\<close> is \<open>cn_u_real\<close>, \<^verbatim>\<open>_value\<close> is \<open>cc_value\<close> and so on.
\<close>

datatype exn = ZeroDivisionError | AttributeError | TypeError

text \<open>
  What a Python special method hands back: a value, the sentinel
  \<^verbatim>\<open>NotImplemented\<close>, or a raised exception.
\<close>

datatype 'a ret = Return 'a | NotImplemented | Raise exn

text \<open>
  The right operand of an operator: a number, or any object that is neither
  \<^verbatim>\<open>int\<close> nor \<^verbatim>\<open>float\<close> (for which \<^verbatim>\<open>isinstance(other, (int, float))\<close>
  is false).
\<close>

datatype operand = Num real | NonNum

record complete_component =
  cc_value :: real
  cc_type :: string

record complete_number =
  cn_real :: real
  cn_imag :: real
  cn_u_real :: real
  cn_u_imag :: real

text \<open>
  \<^verbatim>\<open>CompleteComponent.__init__(value, component_type)\<close> and
  \<^verbatim>\<open>CompleteNumber.__init__(real, imag, u_real=0, u_imag=0)\<close>. Where the source
  leaves the two defaulted arguments out, the model passes \<open>0 0\<close>.
\<close>

definition CompleteComponent :: "real \<Rightarrow> string \<Rightarrow> complete_component" where
  "CompleteComponent v t = \<lparr>cc_value = v, cc_type = t\<rparr>"

definition CompleteNumber :: "real \<Rightarrow> real \<Rightarrow> real \<Rightarrow> real \<Rightarrow> complete_number" where
  "CompleteNumber re im ur ui = \<lparr>cn_real = re, cn_imag = im, cn_u_real = ur, cn_u_imag = ui\<rparr>"

text \<open>The properties \<^verbatim>\<open>real\<close> and \<^verbatim>\<open>imag\<close> of a complete number.\<close>

definition real_property :: "complete_number \<Rightarrow> complete_component" where
  "real_property self = CompleteComponent (cn_real self) ''real''"

definition imag_property :: "complete_number \<Rightarrow> complete_component" where
  "imag_property self = CompleteComponent (cn_imag self) ''imag''"

subsection \<open>Operators of \<^verbatim>\<open>CompleteNumber\<close>\<close>

text \<open>\<^verbatim>\<open>CompleteNumber.__mul__\<close>: the nonzero branch builds the result from two arguments only.\<close>

definition cn_mul :: "complete_number \<Rightarrow> operand \<Rightarrow> complete_number ret" where
  "cn_mul self other =
     (case other of
        Num s \<Rightarrow>
          (if s = 0 then Return (CompleteNumber 0 0 (cn_real self) (cn_imag self))
           else Return (CompleteNumber (cn_real self * s) (cn_imag self * s) 0 0))
      | NonNum \<Rightarrow> NotImplemented)"

text \<open>\<^verbatim>\<open>CompleteNumber.__rmul__\<close> calls \<^verbatim>\<open>__mul__\<close>.\<close>

definition cn_rmul :: "complete_number \<Rightarrow> operand \<Rightarrow> complete_number ret" where
  "cn_rmul self other = cn_mul self other"

text \<open>\<^verbatim>\<open>CompleteNumber.__truediv__\<close>.\<close>

definition cn_truediv :: "complete_number \<Rightarrow> operand \<Rightarrow> complete_number ret" where
  "cn_truediv self other =
     (case other of
        Num s \<Rightarrow>
          (if s = 0 then
             (if cn_real self \<noteq> 0 \<or> cn_imag self \<noteq> 0 then Raise ZeroDivisionError
              else Return (CompleteNumber (cn_u_real self) (cn_u_imag self) 0 0))
           else Return (CompleteNumber (cn_real self / s) (cn_imag self / s)
                          (cn_u_real self / s) (cn_u_imag self / s)))
      | NonNum \<Rightarrow> NotImplemented)"

text \<open>
  \<^verbatim>\<open>CompleteNumber.__rtruediv__\<close> reads \<^verbatim>\<open>self._value\<close>. The instance
  dictionary that \<^verbatim>\<open>__init__\<close> fills has four keys, and the class defines no
  attribute of that name either, so the lookup raises \<^verbatim>\<open>AttributeError\<close> before
  anything else runs.
\<close>

definition instance_dict :: "complete_number \<Rightarrow> string \<rightharpoonup> real" where
  "instance_dict self =
     [''_real'' \<mapsto> cn_real self, ''_imag'' \<mapsto> cn_imag self,
      ''_u_real'' \<mapsto> cn_u_real self, ''_u_imag'' \<mapsto> cn_u_imag self]"

definition cn_rtruediv :: "complete_number \<Rightarrow> real \<Rightarrow> real ret" where
  "cn_rtruediv self other =
     (case instance_dict self ''_value'' of
        None \<Rightarrow> Raise AttributeError
      | Some v \<Rightarrow> (if v = 0 then Raise ZeroDivisionError else Return (other / v)))"

subsection \<open>Operators of \<^verbatim>\<open>CompleteComponent\<close>\<close>

text \<open>
  \<^verbatim>\<open>CompleteComponent.__mul__\<close> returns a string when the operand is zero and a
  float otherwise. The operand of the component operators is a number here. Python's
  \<^verbatim>\<open>str\<close> on a float is a builtin, not code of the module: it is the parameter
  \<open>fmt\<close>.
\<close>

datatype pyval = PyStr string | PyFloat real

type_synonym component_method = "complete_component \<Rightarrow> real \<Rightarrow> pyval ret"

definition comp_mul :: "(real \<Rightarrow> string) \<Rightarrow> component_method" where
  "comp_mul fmt self other =
     (if other = 0 then
        (if cc_type self = ''real'' then Return (PyStr (fmt (cc_value self) @ ''u''))
         else Return (PyStr (fmt (cc_value self) @ ''uj'')))
      else Return (PyFloat (cc_value self * other)))"

definition comp_truediv :: component_method where
  "comp_truediv self other =
     (if other = 0 then Raise ZeroDivisionError else Return (PyFloat (cc_value self / other)))"

text \<open>The first \<^verbatim>\<open>def __rtruediv__\<close> of the class body (source lines 46 to 49).\<close>

definition comp_rtruediv_first :: component_method where
  "comp_rtruediv_first self other =
     (if cc_value self = 0 then Raise ZeroDivisionError
      else Return (PyFloat (other / cc_value self)))"

definition comp_rmul :: "(real \<Rightarrow> string) \<Rightarrow> component_method" where
  "comp_rmul fmt self other = comp_mul fmt self other"

text \<open>The second \<^verbatim>\<open>def __rtruediv__\<close> of the same class body (source lines 54 to 57).\<close>

definition comp_rtruediv_second :: component_method where
  "comp_rtruediv_second self other = NotImplemented"

text \<open>
  A class body runs top to bottom and each \<^verbatim>\<open>def\<close> binds its name in the class
  namespace, so a later \<^verbatim>\<open>def\<close> of a name replaces an earlier one. The operator
  methods in the body of \<^verbatim>\<open>CompleteComponent\<close>, in source order
  (\<^verbatim>\<open>__init__\<close>, \<^verbatim>\<open>__repr__\<close> and \<^verbatim>\<open>__float__\<close> are each defined once
  and take no operand):
\<close>

definition CompleteComponent_body :: "(real \<Rightarrow> string) \<Rightarrow> (string \<times> component_method) list" where
  "CompleteComponent_body fmt =
     [(''__mul__'', comp_mul fmt),
      (''__truediv__'', comp_truediv),
      (''__rtruediv__'', comp_rtruediv_first),
      (''__rmul__'', comp_rmul fmt),
      (''__rtruediv__'', comp_rtruediv_second)]"

definition class_dict :: "(string \<times> 'm) list \<Rightarrow> string \<rightharpoonup> 'm" where
  "class_dict body = fold (\<lambda>(name, m) d. d(name \<mapsto> m)) body Map.empty"

text \<open>Calling a special method of a component through its class; a class without the method declines.\<close>

definition comp_call :: "(real \<Rightarrow> string) \<Rightarrow> string \<Rightarrow> component_method" where
  "comp_call fmt name self other =
     (case class_dict (CompleteComponent_body fmt) name of
        None \<Rightarrow> NotImplemented
      | Some m \<Rightarrow> m self other)"

subsection \<open>Binary operator dispatch\<close>

text \<open>
  Python evaluates \<^verbatim>\<open>a op b\<close> by calling the left operand's method; when that
  returns \<^verbatim>\<open>NotImplemented\<close> it calls the right operand's reflected method; when
  that declines too, the expression raises \<^verbatim>\<open>TypeError\<close>. The first argument is
  what the left method gave, the second what the reflected method gives.
\<close>

definition dispatch :: "'a ret \<Rightarrow> 'a ret \<Rightarrow> exn + 'a" where
  "dispatch forward reflected =
     (case forward of
        Return v \<Rightarrow> Inr v
      | Raise e \<Rightarrow> Inl e
      | NotImplemented \<Rightarrow>
          (case reflected of
             Return v \<Rightarrow> Inr v
           | Raise e \<Rightarrow> Inl e
           | NotImplemented \<Rightarrow> Inl TypeError))"

text \<open>
  The expressions with a plain number on the left. \<^verbatim>\<open>float.__mul__\<close> and
  \<^verbatim>\<open>float.__truediv__\<close> return \<^verbatim>\<open>NotImplemented\<close> for an operand that is
  neither \<^verbatim>\<open>int\<close> nor \<^verbatim>\<open>float\<close>, so the reflected method of the right
  operand decides.
\<close>

definition scalar_div_cn :: "real \<Rightarrow> complete_number \<Rightarrow> exn + real" where
  "scalar_div_cn s x = dispatch NotImplemented (cn_rtruediv x s)"

definition scalar_mul_component :: "(real \<Rightarrow> string) \<Rightarrow> real \<Rightarrow> complete_component \<Rightarrow> exn + pyval" where
  "scalar_mul_component fmt s v = dispatch NotImplemented (comp_call fmt ''__rmul__'' v s)"

definition scalar_div_component :: "(real \<Rightarrow> string) \<Rightarrow> real \<Rightarrow> complete_component \<Rightarrow> exn + pyval" where
  "scalar_div_component fmt s v = dispatch NotImplemented (comp_call fmt ''__rtruediv__'' v s)"

text \<open>The expressions with the component on the left; a number has no reflected method for it.\<close>

definition component_mul_scalar :: "(real \<Rightarrow> string) \<Rightarrow> complete_component \<Rightarrow> real \<Rightarrow> exn + pyval" where
  "component_mul_scalar fmt v s = dispatch (comp_call fmt ''__mul__'' v s) NotImplemented"

definition component_div_scalar :: "(real \<Rightarrow> string) \<Rightarrow> complete_component \<Rightarrow> real \<Rightarrow> exn + pyval" where
  "component_div_scalar fmt v s = dispatch (comp_call fmt ''__truediv__'' v s) NotImplemented"

subsection \<open>Rendering\<close>

text \<open>\<^verbatim>\<open>sep.join(parts)\<close>.\<close>

fun join :: "string \<Rightarrow> string list \<Rightarrow> string" where
  "join sep [] = []"
| "join sep [p] = p"
| "join sep (p # q # ps) = p @ sep @ join sep (q # ps)"

text \<open>
  \<^verbatim>\<open>s.replace(old, new)\<close>: every occurrence of \<open>old\<close>, found left to right without
  overlap, is replaced. With an empty \<open>old\<close> Python puts \<open>new\<close> before every character
  and at the end.
\<close>

fun str_replace :: "string \<Rightarrow> string \<Rightarrow> string \<Rightarrow> string" where
  "str_replace old new [] = (if old = [] then new else [])"
| "str_replace old new (c # cs) =
     (if old = [] then new @ c # str_replace old new cs
      else if take (length old) (c # cs) = old
        then new @ str_replace old new (drop (length old) (c # cs))
      else c # str_replace old new cs)"

text \<open>\<^verbatim>\<open>CompleteNumber.__repr__\<close>: the list \<^verbatim>\<open>parts\<close> after the four appends, then the join and the replace.\<close>

definition repr_parts :: "(real \<Rightarrow> string) \<Rightarrow> complete_number \<Rightarrow> string list" where
  "repr_parts fmt self =
     (if cn_real self \<noteq> 0 \<or> (cn_imag self = 0 \<and> cn_u_real self = 0 \<and> cn_u_imag self = 0)
      then [fmt (cn_real self)] else [])
     @ (if cn_imag self \<noteq> 0 then [fmt (cn_imag self) @ ''j''] else [])
     @ (if cn_u_real self \<noteq> 0 then [fmt (cn_u_real self) @ ''u''] else [])
     @ (if cn_u_imag self \<noteq> 0 then [fmt (cn_u_imag self) @ ''uj''] else [])"

definition cn_repr :: "(real \<Rightarrow> string) \<Rightarrow> complete_number \<Rightarrow> string" where
  "cn_repr fmt self = str_replace '' + -'' '' - '' (join '' + '' (repr_parts fmt self))"

subsection \<open>The rendering as the specification words it\<close>

text \<open>
  The specification's \<^verbatim>\<open>to_string\<close>: the nonzero terms in the order real, imag
  (suffix \<^verbatim>\<open>j\<close>), \<^verbatim>\<open>u_real\<close> (suffix \<^verbatim>\<open>u\<close>), \<^verbatim>\<open>u_imag\<close> (suffix \<^verbatim>\<open>uj\<close>), the
  real term kept as well when every other field is zero; the first term as it prints,
  each later term after \<^verbatim>\<open>" + "\<close>, or after \<^verbatim>\<open>" - "\<close> with its magnitude when
  it is negative.
\<close>

definition spec_terms :: "complete_number \<Rightarrow> (real \<times> string) list" where
  "spec_terms x =
     (let others = filter (\<lambda>(v, suffix). v \<noteq> 0)
                     [(cn_imag x, ''j''), (cn_u_real x, ''u''), (cn_u_imag x, ''uj'')]
      in (if cn_real x \<noteq> 0 \<or> others = [] then [(cn_real x, [])] else []) @ others)"

definition spec_later_term :: "(real \<Rightarrow> string) \<Rightarrow> real \<times> string \<Rightarrow> string" where
  "spec_later_term fmt t =
     (if fst t < 0 then '' - '' @ fmt (- fst t) @ snd t else '' + '' @ fmt (fst t) @ snd t)"

definition to_string_spec :: "(real \<Rightarrow> string) \<Rightarrow> complete_number \<Rightarrow> string" where
  "to_string_spec fmt x =
     (case spec_terms x of
        [] \<Rightarrow> []
      | t # ts \<Rightarrow> fmt (fst t) @ snd t @ concat (map (spec_later_term fmt) ts))"

text \<open>
  What the rendering needs of Python's \<^verbatim>\<open>str\<close> at one float: the text has no
  blank, a negative float prints as a minus sign before the text of its magnitude, and
  no other float prints with a leading minus sign.
\<close>

definition float_str_ok :: "(real \<Rightarrow> string) \<Rightarrow> real \<Rightarrow> bool" where
  "float_str_ok fmt v \<longleftrightarrow>
     CHR '' '' \<notin> set (fmt v) \<and>
     (if v < 0 then fmt v = CHR ''-'' # fmt (- v) else take 1 (fmt v) \<noteq> ''-'')"

text \<open>The terms that can follow the first one in a rendering, each with its suffix.\<close>

definition later_terms :: "complete_number \<Rightarrow> (real \<times> string) set" where
  "later_terms x = {(cn_imag x, ''j''), (cn_u_real x, ''u''), (cn_u_imag x, ''uj'')}"

text \<open>
  A fragment of Python's \<^verbatim>\<open>str\<close> on floats, enough to run the examples:
  \<^verbatim>\<open>str(3.0)\<close> is \<^verbatim>\<open>'3.0'\<close>, \<^verbatim>\<open>str(-4.0)\<close> is \<^verbatim>\<open>'-4.0'\<close>, and so on.
  It is right on the floats 3, 4, -4, 6 and 0, the only ones the examples print.
\<close>

definition str_sample :: "real \<Rightarrow> string" where
  "str_sample v =
     (if v = 3 then ''3.0'' else if v = 4 then ''4.0''
      else if v = - 4 then ''-4.0'' else if v = 6 then ''6.0'' else ''0.0'')"

section \<open>Basic facts\<close>

lemma CompleteNumber_sel [simp]:
  "cn_real (CompleteNumber a b c d) = a"
  "cn_imag (CompleteNumber a b c d) = b"
  "cn_u_real (CompleteNumber a b c d) = c"
  "cn_u_imag (CompleteNumber a b c d) = d"
  by (simp_all add: CompleteNumber_def)

lemma CompleteNumber_eq [simp]:
  "CompleteNumber a b c d = CompleteNumber a' b' c' d' \<longleftrightarrow> a = a' \<and> b = b' \<and> c = c' \<and> d = d'"
  by (simp add: CompleteNumber_def)

text \<open>
  The class namespace of \<^verbatim>\<open>CompleteComponent\<close> after its body has run: the name
  \<^verbatim>\<open>__rtruediv__\<close> is bound to the second definition.
\<close>

lemma comp_call_simps:
  "comp_call fmt ''__mul__'' = comp_mul fmt"
  "comp_call fmt ''__truediv__'' = comp_truediv"
  "comp_call fmt ''__rmul__'' = comp_rmul fmt"
  "comp_call fmt ''__rtruediv__'' = comp_rtruediv_second"
  by (simp_all add: comp_call_def class_dict_def CompleteComponent_body_def fun_eq_iff)

lemma str_sample_ok:
  "float_str_ok str_sample 3" "float_str_ok str_sample (- 4)" "float_str_ok str_sample 0"
  by (simp_all add: float_str_ok_def str_sample_def)

section \<open>Join and replace on the rendered parts\<close>

text \<open>
  The pattern \<^verbatim>\<open>" + -"\<close> starts with a blank, and the only blanks of the joined
  string are those of the separators: a match can only start at a separator, and it does
  exactly when the part after it starts with a minus sign.
\<close>

lemma str_replace_no_blank:
  "CHR '' '' \<notin> set s \<Longrightarrow> str_replace '' + -'' new (s @ t) = s @ str_replace '' + -'' new t"
  by (induction s) auto

lemma join_Cons: "join sep (p # ps) = p @ concat (map (\<lambda>q. sep @ q) ps)"
  by (induction ps arbitrary: p) auto

lemma str_replace_sep_minus:
  "str_replace '' + -'' new ('' + '' @ CHR ''-'' # t) = new @ str_replace '' + -'' new t"
  by simp

lemma str_replace_sep_other:
  assumes "CHR '' '' \<notin> set p" "p \<noteq> []" "hd p \<noteq> CHR ''-''" "last p \<noteq> CHR ''+''"
  shows "str_replace '' + -'' new ('' + '' @ p @ t) = '' + '' @ p @ str_replace '' + -'' new t"
proof -
  obtain c cs where p: "p = c # cs" using assms(2) by (cases p) auto
  have c: "c \<noteq> CHR ''-''" "c \<noteq> CHR '' ''" using assms p by auto
  have "str_replace '' + -'' new ('' + '' @ p @ t) = '' + '' @ str_replace '' + -'' new (p @ t)"
  proof (cases cs)
    case Nil
    then have "c \<noteq> CHR ''+''" using assms(4) p by simp
    then show ?thesis using c p Nil by simp
  next
    case (Cons d ds)
    then have "d \<noteq> CHR '' ''" using assms(1) p by auto
    then show ?thesis using c p Cons by simp
  qed
  then show ?thesis using str_replace_no_blank[OF assms(1)] by simp
qed


lemma spec_terms_shape:
  "\<exists>t ts. spec_terms x = t # ts \<and> (t = (cn_real x, []) \<or> t \<in> later_terms x) \<and>
     (\<forall>t' \<in> set ts. fst t' \<noteq> 0 \<and> t' \<in> later_terms x)"
  by (auto simp: spec_terms_def later_terms_def Let_def)

lemma repr_parts_spec:
  "repr_parts fmt x = map (\<lambda>t. fmt (fst t) @ snd t) (spec_terms x)"
  by (auto simp: repr_parts_def spec_terms_def Let_def)

lemma str_replace_later_term:
  assumes ok: "float_str_ok fmt v" and nz: "v \<noteq> 0" and suf: "suf \<in> {''j'', ''u'', ''uj''}"
  shows "str_replace '' + -'' '' - '' ('' + '' @ (fmt v @ suf) @ rest)
         = spec_later_term fmt (v, suf) @ str_replace '' + -'' '' - '' rest"
proof (cases "v < 0")
  case True
  then have f: "fmt v = CHR ''-'' # fmt (- v)" and nb: "CHR '' '' \<notin> set (fmt v)"
    using ok by (auto simp: float_str_ok_def)
  have nb': "CHR '' '' \<notin> set (fmt (- v) @ suf)" using f nb suf by auto
  have "str_replace '' + -'' '' - '' ('' + '' @ (fmt v @ suf) @ rest)
        = '' - '' @ str_replace '' + -'' '' - '' ((fmt (- v) @ suf) @ rest)"
    using f str_replace_sep_minus[of "'' - ''" "(fmt (- v) @ suf) @ rest"] by simp
  also have "\<dots> = '' - '' @ (fmt (- v) @ suf) @ str_replace '' + -'' '' - '' rest"
    using str_replace_no_blank[OF nb'] by simp
  finally show ?thesis using True by (simp add: spec_later_term_def)
next
  case False
  then have h: "take 1 (fmt v) \<noteq> ''-''" and nb: "CHR '' '' \<notin> set (fmt v)"
    using ok by (simp_all add: float_str_ok_def)
  let ?p = "fmt v @ suf"
  have 1: "CHR '' '' \<notin> set ?p" using nb suf by auto
  have 2: "?p \<noteq> []" using suf by auto
  have 3: "hd ?p \<noteq> CHR ''-''" using h suf by (cases "fmt v") auto
  have 4: "last ?p \<noteq> CHR ''+''" using suf by auto
  show ?thesis using str_replace_sep_other[OF 1 2 3 4] False by (simp add: spec_later_term_def)
qed

lemma str_replace_later_terms:
  assumes "\<forall>t \<in> set ts. float_str_ok fmt (fst t) \<and> fst t \<noteq> 0 \<and> snd t \<in> {''j'', ''u'', ''uj''}"
  shows "str_replace '' + -'' '' - '' (concat (map (\<lambda>t. '' + '' @ fmt (fst t) @ snd t) ts))
         = concat (map (spec_later_term fmt) ts)"
  using assms
proof (induction ts)
  case Nil
  show ?case by simp
next
  case (Cons t ts)
  obtain v suf where t: "t = (v, suf)" by (cases t)
  have "str_replace '' + -'' '' - '' ('' + '' @ (fmt v @ suf) @ concat (map (\<lambda>t. '' + '' @ fmt (fst t) @ snd t) ts))
        = spec_later_term fmt (v, suf) @ str_replace '' + -'' '' - '' (concat (map (\<lambda>t. '' + '' @ fmt (fst t) @ snd t) ts))"
    using Cons.prems t by (intro str_replace_later_term) auto
  then show ?case using Cons t by simp
qed

lemma cn_repr_refines_spec:
  assumes "float_str_ok fmt (cn_real x)" "float_str_ok fmt (cn_imag x)"
    "float_str_ok fmt (cn_u_real x)" "float_str_ok fmt (cn_u_imag x)"
  shows "cn_repr fmt x = to_string_spec fmt x"
proof -
  obtain t ts where sh: "spec_terms x = t # ts" "t = (cn_real x, []) \<or> t \<in> later_terms x"
    "\<forall>t' \<in> set ts. fst t' \<noteq> 0 \<and> t' \<in> later_terms x"
    using spec_terms_shape[of x] by blast
  have nb: "CHR '' '' \<notin> set (fmt (fst t) @ snd t)"
    using sh(2) assms by (auto simp: later_terms_def float_str_ok_def)
  have later: "\<forall>t' \<in> set ts. float_str_ok fmt (fst t') \<and> fst t' \<noteq> 0 \<and> snd t' \<in> {''j'', ''u'', ''uj''}"
    using sh(3) assms by (auto simp: later_terms_def)
  have "cn_repr fmt x = str_replace '' + -'' '' - ''
          ((fmt (fst t) @ snd t) @ concat (map (\<lambda>t. '' + '' @ fmt (fst t) @ snd t) ts))"
    by (simp add: cn_repr_def repr_parts_spec sh(1) join_Cons comp_def)
  also have "\<dots> = (fmt (fst t) @ snd t) @ concat (map (spec_later_term fmt) ts)"
    using str_replace_no_blank[OF nb] str_replace_later_terms[OF later] by simp
  finally show ?thesis by (simp add: to_string_spec_def sh(1))
qed

section \<open>Multiplication and division of complete numbers\<close>

text \<open>
  C1 (absorption). Multiplying any complete number \<open>x\<close> with fields \<open>(r, i, ur, ui)\<close> by
  the scalar zero returns \<^verbatim>\<open>CompleteNumber(0, 0, r, i)\<close>: the real and imaginary
  parts move to the absorbed slots, and whatever \<open>x\<close> held in its absorbed slots is
  overwritten, not accumulated.
\<close>

theorem cn_mul_zero_absorbs:
  "cn_mul (CompleteNumber r i ur ui) (Num 0) = Return (CompleteNumber 0 0 r i)"
  by (simp add: cn_mul_def)

text \<open>
  C2 (division by zero: guard and recovery). For every complete number \<open>x\<close>, \<open>x / 0\<close>
  raises \<^verbatim>\<open>ZeroDivisionError\<close> exactly when its real or its imaginary part is
  nonzero; when both are zero it returns \<^verbatim>\<open>CompleteNumber(ur, ui, 0, 0)\<close>, the
  absorbed values back in the real and imaginary slots and the absorbed slots reset. So
  absorbing and then recovering, \<open>(x * 0) / 0\<close>, gives back the real and imaginary parts
  of \<open>x\<close>.
\<close>

theorem cn_truediv_zero:
  "(cn_truediv x (Num 0) = Raise ZeroDivisionError \<longleftrightarrow> cn_real x \<noteq> 0 \<or> cn_imag x \<noteq> 0) \<and>
   (cn_real x = 0 \<and> cn_imag x = 0 \<longrightarrow>
      cn_truediv x (Num 0) = Return (CompleteNumber (cn_u_real x) (cn_u_imag x) 0 0)) \<and>
   (\<exists>y. cn_mul (CompleteNumber r i ur ui) (Num 0) = Return y \<and>
        cn_truediv y (Num 0) = Return (CompleteNumber r i 0 0))"
  by (simp add: cn_truediv_def cn_mul_def)

theorem cn_truediv_zero_witness:
  "cn_truediv (CompleteNumber 3 4 0 0) (Num 0) = Raise ZeroDivisionError \<and>
   cn_truediv (CompleteNumber 0 0 3 4) (Num 0) = Return (CompleteNumber 3 4 0 0)"
  using cn_truediv_zero [of "CompleteNumber 3 4 0 0"] cn_truediv_zero [of "CompleteNumber 0 0 3 4"]
  by simp

text \<open>
  C3 (nonzero multiplication), as the claim states it: \<open>x * s\<close> for \<open>s \<noteq> 0\<close> is
  \<^verbatim>\<open>CompleteNumber(r*s, i*s, ur, ui)\<close>, the absorbed fields passed through
  unscaled. The source builds the result from two arguments, so the absorbed fields take
  their default: \<open>(1, 1, 1, 1) * 2\<close> is \<open>(2, 2, 0, 0)\<close>, not \<open>(2, 2, 1, 1)\<close>.
\<close>

theorem cn_mul_nonzero_counterexample:
  "cn_mul (CompleteNumber 1 1 1 1) (Num 2) = Return (CompleteNumber 2 2 0 0) \<and>
   cn_mul (CompleteNumber 1 1 1 1) (Num 2) \<noteq> Return (CompleteNumber (1 * 2) (1 * 2) 1 1)"
  by (simp add: cn_mul_def)

text \<open>
  C3, amended. For every complete number \<open>x\<close> with fields \<open>(r, i, ur, ui)\<close> and every
  scalar \<open>s \<noteq> 0\<close>, \<open>x * s\<close> is \<^verbatim>\<open>CompleteNumber(r*s, i*s, 0, 0)\<close>: the real and
  imaginary parts are scaled and both absorbed fields are reset to zero.
\<close>

theorem cn_mul_nonzero_resets_absorbed:
  "s \<noteq> 0 \<Longrightarrow>
   cn_mul (CompleteNumber r i ur ui) (Num s) = Return (CompleteNumber (r * s) (i * s) 0 0)"
  by (simp add: cn_mul_def)

theorem cn_mul_nonzero_resets_absorbed_witness:
  "cn_mul (CompleteNumber 3 4 5 6) (Num 2) = Return (CompleteNumber 6 8 0 0)"
  using cn_mul_nonzero_resets_absorbed [of 2 3 4 5 6] by simp




text \<open>
  C10 (the all-zero number). \<^verbatim>\<open>CompleteNumber(0, 0, 0, 0) / 0\<close> does not raise: it
  returns \<^verbatim>\<open>CompleteNumber(0, 0, 0, 0)\<close>. The division raises
  \<^verbatim>\<open>ZeroDivisionError\<close> only for a number whose real or imaginary part is nonzero,
  whereas the plain scalar division of a component, \<open>0 / 0\<close>, does raise.
\<close>

theorem cn_truediv_zero_of_zero:
  "cn_truediv (CompleteNumber 0 0 0 0) (Num 0) = Return (CompleteNumber 0 0 0 0) \<and>
   (cn_truediv x other = Raise ZeroDivisionError \<longrightarrow> cn_real x \<noteq> 0 \<or> cn_imag x \<noteq> 0) \<and>
   component_div_scalar fmt (real_property (CompleteNumber 0 0 0 0)) 0 = Inl ZeroDivisionError"
  by (auto simp: cn_truediv_def component_div_scalar_def comp_call_simps dispatch_def
      comp_truediv_def split: operand.splits if_splits)

theorem cn_truediv_zero_of_zero_witness:
  "cn_truediv (CompleteNumber 3 0 0 0) (Num 0) = Raise ZeroDivisionError \<and>
   cn_real (CompleteNumber 3 0 0 0) \<noteq> 0 \<and>
   cn_truediv (CompleteNumber 0 0 0 0) (Num 0) = Return (CompleteNumber 0 0 0 0)"
  using cn_truediv_zero_of_zero [of "CompleteNumber 3 0 0 0" "Num 0"]
  by (simp add: cn_truediv_def)

section \<open>Operators of a component\<close>

text \<open>
  C5 (component multiplication). For a component \<open>v\<close> with value \<open>x\<close>, \<open>v * 0\<close> returns
  the absorbed rendering: the text of \<open>x\<close> followed by \<^verbatim>\<open>u\<close> for the real slot and
  by \<^verbatim>\<open>uj\<close> for the imag slot, so \<^verbatim>\<open>CompleteNumber(3,4).real * 0\<close> is
  \<^verbatim>\<open>"3.0u"\<close> and \<^verbatim>\<open>CompleteNumber(3,4).imag * 0\<close> is \<^verbatim>\<open>"4.0uj"\<close>. For
  \<open>s \<noteq> 0\<close>, \<open>v * s\<close> is the bare number \<open>x * s\<close>, and \<open>s * v\<close> gives the same result as
  \<open>v * s\<close>.
\<close>

theorem component_mul:
  "(cc_type v = ''real'' \<longrightarrow>
      component_mul_scalar fmt v 0 = Inr (PyStr (fmt (cc_value v) @ ''u''))) \<and>
   (cc_type v = ''imag'' \<longrightarrow>
      component_mul_scalar fmt v 0 = Inr (PyStr (fmt (cc_value v) @ ''uj''))) \<and>
   (fmt 3 = ''3.0'' \<longrightarrow>
      component_mul_scalar fmt (real_property (CompleteNumber 3 4 ur ui)) 0 = Inr (PyStr ''3.0u'')) \<and>
   (fmt 4 = ''4.0'' \<longrightarrow>
      component_mul_scalar fmt (imag_property (CompleteNumber 3 4 ur ui)) 0 = Inr (PyStr ''4.0uj'')) \<and>
   (s \<noteq> 0 \<longrightarrow> component_mul_scalar fmt v s = Inr (PyFloat (cc_value v * s))) \<and>
   scalar_mul_component fmt s v = component_mul_scalar fmt v s"
  by (simp add: component_mul_scalar_def scalar_mul_component_def comp_call_simps dispatch_def
      comp_mul_def comp_rmul_def real_property_def imag_property_def CompleteComponent_def)

theorem component_mul_witness:
  "component_mul_scalar str_sample (real_property (CompleteNumber 3 4 0 0)) 0 = Inr (PyStr ''3.0u'') \<and>
   component_mul_scalar str_sample (imag_property (CompleteNumber 3 4 0 0)) 0 = Inr (PyStr ''4.0uj'') \<and>
   component_mul_scalar str_sample (real_property (CompleteNumber 3 4 0 0)) 2 = Inr (PyFloat 6) \<and>
   scalar_mul_component str_sample 2 (real_property (CompleteNumber 3 4 0 0)) = Inr (PyFloat 6)"
  using component_mul [of "real_property (CompleteNumber 3 4 0 0)" str_sample 0 0 2]
    component_mul [of "imag_property (CompleteNumber 3 4 0 0)" str_sample 0 0 2]
  by (simp add: str_sample_def real_property_def imag_property_def CompleteComponent_def)

text \<open>
  C6 (component division). For every component \<open>v\<close>, \<open>v / 0\<close> raises
  \<^verbatim>\<open>ZeroDivisionError\<close> whatever its value and slot, and \<open>v / s\<close> for \<open>s \<noteq> 0\<close> is
  the value of \<open>v\<close> divided by \<open>s\<close>. There is no absorption here: for a number with zero
  real and imaginary parts, both components raise on \<open>/ 0\<close> while the number itself
  recovers.
\<close>

theorem component_div:
  "component_div_scalar fmt v 0 = Inl ZeroDivisionError \<and>
   (s \<noteq> 0 \<longrightarrow> component_div_scalar fmt v s = Inr (PyFloat (cc_value v / s))) \<and>
   component_div_scalar fmt (real_property (CompleteNumber 0 0 ur ui)) 0 = Inl ZeroDivisionError \<and>
   component_div_scalar fmt (imag_property (CompleteNumber 0 0 ur ui)) 0 = Inl ZeroDivisionError \<and>
   cn_truediv (CompleteNumber 0 0 ur ui) (Num 0) = Return (CompleteNumber ur ui 0 0)"
  by (simp add: component_div_scalar_def comp_call_simps dispatch_def comp_truediv_def cn_truediv_def)

theorem component_div_witness:
  "component_div_scalar str_sample (real_property (CompleteNumber 3 4 0 0)) 0 = Inl ZeroDivisionError \<and>
   component_div_scalar str_sample (imag_property (CompleteNumber 3 4 0 0)) 2 = Inr (PyFloat 2)"
  using component_div [of str_sample "real_property (CompleteNumber 3 4 0 0)" 2 0 0]
    component_div [of str_sample "imag_property (CompleteNumber 3 4 0 0)" 2 0 0]
  by (simp add: imag_property_def CompleteComponent_def)

section \<open>Reverse division\<close>

text \<open>
  The first \<^verbatim>\<open>__rtruediv__\<close> of \<^verbatim>\<open>CompleteComponent\<close>, had it stayed bound,
  would make \<open>s / v\<close> raise \<^verbatim>\<open>ZeroDivisionError\<close> for a zero value and return the
  quotient otherwise.
\<close>

lemma comp_rtruediv_first_dispatch:
  "dispatch NotImplemented (comp_rtruediv_first v s) =
     (if cc_value v = 0 then Inl ZeroDivisionError else Inr (PyFloat (s / cc_value v)))"
  by (simp add: comp_rtruediv_first_def dispatch_def)

text \<open>
  C7 (reverse division of a component). The claim: \<open>s / v\<close> returns \<open>s\<close> divided by the
  value of \<open>v\<close> when that value is nonzero, and raises \<^verbatim>\<open>ZeroDivisionError\<close> when
  it is zero. The class binds \<^verbatim>\<open>__rtruediv__\<close> a second time, to a body that
  returns \<^verbatim>\<open>NotImplemented\<close>, so what runs is: \<open>s / v\<close> raises
  \<^verbatim>\<open>TypeError\<close> for every \<open>s\<close> and every \<open>v\<close>.
\<close>

theorem scalar_div_component_always_TypeError:
  "scalar_div_component fmt s v = Inl TypeError"
  by (simp add: scalar_div_component_def comp_call_simps comp_rtruediv_second_def dispatch_def)

theorem scalar_div_component_failing_input:
  "scalar_div_component str_sample 1 (real_property (CompleteNumber 3 4 0 0)) = Inl TypeError \<and>
   scalar_div_component str_sample 1 (real_property (CompleteNumber 3 4 0 0)) \<noteq> Inr (PyFloat (1 / 3))"
  using scalar_div_component_always_TypeError [of str_sample 1 "real_property (CompleteNumber 3 4 0 0)"]
  by simp

text \<open>
  C8 (reverse division of a complete number). The claim: \<open>s / x\<close> is a typed
  unsupported-operand failure and never an undefined-attribute crash. The method reads
  \<^verbatim>\<open>self._value\<close>, which a complete number does not have, so what runs is:
  \<open>s / x\<close> raises \<^verbatim>\<open>AttributeError\<close> for every \<open>s\<close> and every \<open>x\<close>.
\<close>

theorem scalar_div_cn_always_AttributeError:
  "scalar_div_cn s x = Inl AttributeError"
  by (simp add: scalar_div_cn_def cn_rtruediv_def instance_dict_def dispatch_def)

theorem scalar_div_cn_failing_input:
  "scalar_div_cn 1 (CompleteNumber 3 4 0 0) = Inl AttributeError \<and>
   scalar_div_cn 1 (CompleteNumber 3 4 0 0) \<noteq> Inl TypeError"
  using scalar_div_cn_always_AttributeError [of 1 "CompleteNumber 3 4 0 0"]
  by simp

section \<open>Rendering\<close>

text \<open>
  C9 (textual rendering). Given that \<^verbatim>\<open>str\<close> prints each field of \<open>x\<close> without a
  blank and with a leading minus sign exactly when it is negative, the rendering of \<open>x\<close>
  is the one the specification words: the nonzero terms in the order real, imag
  \<^verbatim>\<open>j\<close>, \<^verbatim>\<open>u_real\<close> \<^verbatim>\<open>u\<close>, \<^verbatim>\<open>u_imag\<close> \<^verbatim>\<open>uj\<close>, the real term also kept when all
  other fields are zero, joined by \<^verbatim>\<open>" + "\<close>, a negative later term shown after
  \<^verbatim>\<open>" - "\<close>. With \<^verbatim>\<open>str(3.0) = "3.0"\<close>, \<^verbatim>\<open>str(4.0) = "4.0"\<close> and
  \<^verbatim>\<open>str(0.0) = "0.0"\<close>: \<^verbatim>\<open>CompleteNumber(3, 4)\<close> renders as
  \<^verbatim>\<open>"3.0 + 4.0j"\<close>, \<^verbatim>\<open>CompleteNumber(0,0,3,4)\<close> as \<^verbatim>\<open>"3.0u + 4.0uj"\<close> and
  \<^verbatim>\<open>CompleteNumber(0,0,0,0)\<close> as \<^verbatim>\<open>"0.0"\<close>.
\<close>

theorem cn_repr_rendering:
  "(float_str_ok fmt (cn_real x) \<and> float_str_ok fmt (cn_imag x) \<and>
    float_str_ok fmt (cn_u_real x) \<and> float_str_ok fmt (cn_u_imag x) \<longrightarrow>
      cn_repr fmt x = to_string_spec fmt x) \<and>
   (fmt 3 = ''3.0'' \<and> fmt 4 = ''4.0'' \<longrightarrow>
      cn_repr fmt (CompleteNumber 3 4 0 0) = ''3.0 + 4.0j'' \<and>
      cn_repr fmt (CompleteNumber 0 0 3 4) = ''3.0u + 4.0uj'') \<and>
   (fmt 0 = ''0.0'' \<longrightarrow> cn_repr fmt (CompleteNumber 0 0 0 0) = ''0.0'')"
proof (intro conjI impI)
  assume "float_str_ok fmt (cn_real x) \<and> float_str_ok fmt (cn_imag x) \<and>
    float_str_ok fmt (cn_u_real x) \<and> float_str_ok fmt (cn_u_imag x)"
  then show "cn_repr fmt x = to_string_spec fmt x"
    by (simp add: cn_repr_refines_spec)
next
  assume "fmt 3 = ''3.0'' \<and> fmt 4 = ''4.0''"
  then show "cn_repr fmt (CompleteNumber 3 4 0 0) = ''3.0 + 4.0j''"
    by (simp add: cn_repr_def repr_parts_def)
next
  assume "fmt 3 = ''3.0'' \<and> fmt 4 = ''4.0''"
  then show "cn_repr fmt (CompleteNumber 0 0 3 4) = ''3.0u + 4.0uj''"
    by (simp add: cn_repr_def repr_parts_def)
next
  assume "fmt 0 = ''0.0''"
  then show "cn_repr fmt (CompleteNumber 0 0 0 0) = ''0.0''"
    by (simp add: cn_repr_def repr_parts_def)
qed

theorem cn_repr_rendering_witness:
  "cn_repr str_sample (CompleteNumber 3 (- 4) 0 0) = ''3.0 - 4.0j'' \<and>
   to_string_spec str_sample (CompleteNumber 3 (- 4) 0 0) = ''3.0 - 4.0j'' \<and>
   cn_repr str_sample (CompleteNumber 3 4 0 0) = ''3.0 + 4.0j'' \<and>
   cn_repr str_sample (CompleteNumber 0 0 3 4) = ''3.0u + 4.0uj'' \<and>
   cn_repr str_sample (CompleteNumber 0 0 0 0) = ''0.0''"
proof -
  have spec: "to_string_spec str_sample (CompleteNumber 3 (- 4) 0 0) = ''3.0 - 4.0j''"
    by (simp add: to_string_spec_def spec_terms_def spec_later_term_def str_sample_def)
  have s: "str_sample 3 = ''3.0''" "str_sample 4 = ''4.0''" "str_sample 0 = ''0.0''"
    by (simp_all add: str_sample_def)
  show ?thesis
    using cn_repr_rendering [of str_sample "CompleteNumber 3 (- 4) 0 0"] str_sample_ok spec s
    by simp
qed

end
